theory Spec2Isabelle
  imports Main "HOL-Library.Sublist"
begin

section \<open>Task Management API: data model\<close>

text \<open>
  The service keeps two tables, users and tasks, behind a record service
  (\<^verbatim>\<open>crud.py\<close>) and a router (\<^verbatim>\<open>main.py\<close>). A database session is modelled as
  the pair of tables, each a list of rows in insertion order; every function
  that commits returns the new session. Python exceptions are values of the
  type \<open>exn\<close>, and a function that can raise returns \<open>exn + 'a\<close>.
\<close>

subsection \<open>Rows\<close>

text \<open>
  Modelled from the spec: \<^verbatim>\<open>models.py\<close> is not among the sources. The attributes
  of a user row (id, username, email, hashed_password, is_admin) and of a task
  row (id, title, description, completed, owner_id) are the ones \<^verbatim>\<open>crud.py\<close>
  reads and writes; their types follow the response schemas \<^verbatim>\<open>schemas.User\<close> and
  \<^verbatim>\<open>schemas.Task\<close>, which read them with \<^verbatim>\<open>from_attributes\<close>: only the description can
  be None.
\<close>

record user_row =
  u_id :: int
  u_username :: string
  u_email :: string
  u_hashed_password :: string
  u_is_admin :: bool

record task_row =
  t_id :: int
  t_title :: string
  t_description :: "string option"
  t_completed :: bool
  t_owner_id :: int

record Session =
  users :: "user_row list"
  tasks :: "task_row list"

subsection \<open>Request schemas (\<^verbatim>\<open>schemas.py\<close>)\<close>

text \<open>
  A field of an update schema is declared \<^verbatim>\<open>Optional[T] = None\<close> and dumped with
  \<^verbatim>\<open>exclude_unset=True\<close>, so it has three states: left out of the payload
  (\<open>Unset\<close>), given as null (\<open>Assigned None\<close>), given a value
  (\<open>Assigned (Some v)\<close>).
\<close>

datatype 'a field = Unset | Assigned 'a

record UserCreate =
  uc_username :: string
  uc_email :: string
  uc_password :: string
  uc_is_admin :: "bool option"

record UserUpdate =
  uu_email :: "string option field"
  uu_password :: "string option field"
  uu_is_admin :: "bool option field"

record TaskCreate =
  tc_title :: string
  tc_description :: "string option"

record TaskUpdate =
  tu_title :: "string option field"
  tu_description :: "string option field"
  tu_completed :: "bool option field"

record OAuth2PasswordRequestForm =
  form_username :: string
  form_password :: string

subsection \<open>JSON values and response schemas\<close>

datatype json =
    JNull
  | JBool bool
  | JInt int
  | JStr string
  | JArr "json list"
  | JObj "(string \<times> json) list"

type_synonym json_object = "(string \<times> json) list"

definition keys :: "json_object \<Rightarrow> string list" where
  "keys obj = map fst obj"

text \<open>
  \<^verbatim>\<open>response_model=schemas.User\<close> serialises exactly the fields that the class
  \<^verbatim>\<open>User\<close> declares, in that order; likewise \<^verbatim>\<open>schemas.Task\<close>.
\<close>

definition User_dump :: "user_row \<Rightarrow> json_object" where
  "User_dump u =
     [(''id'', JInt (u_id u)),
      (''username'', JStr (u_username u)),
      (''email'', JStr (u_email u)),
      (''is_admin'', JBool (u_is_admin u))]"

definition Task_dump :: "task_row \<Rightarrow> json_object" where
  "Task_dump t =
     [(''id'', JInt (t_id t)),
      (''title'', JStr (t_title t)),
      (''description'', (case t_description t of None \<Rightarrow> JNull | Some d \<Rightarrow> JStr d)),
      (''completed'', JBool (t_completed t))]"

subsection \<open>Exceptions\<close>

text \<open>
  \<open>HTTPException\<close> is what the router raises; \<open>RequestValidationError\<close> is the
  framework's rejection of a body (status 422); \<open>IntegrityError\<close> is a commit
  refused by a constraint of the store and \<open>TypeError\<close> is the password hasher
  given None; \<open>ResponseValidationError\<close> is the framework finding that a
  handler's result does not fit its response model; \<open>OverflowError\<close> is the
  store refusing to bind an integer that does not fit its 64-bit integer type;
  \<open>PasswordValueError\<close> is the password hasher refusing a password (passlib
  refuses one that contains a NUL byte). None of these five is caught, so the
  client sees status 500.
\<close>

datatype exn =
    HTTPException nat string
  | RequestValidationError
  | IntegrityError
  | TypeError
  | ResponseValidationError
  | OverflowError
  | PasswordValueError

fun status_code :: "exn \<Rightarrow> nat" where
  "status_code (HTTPException s d) = s"
| "status_code RequestValidationError = 422"
| "status_code IntegrityError = 500"
| "status_code TypeError = 500"
| "status_code ResponseValidationError = 500"
| "status_code OverflowError = 500"
| "status_code PasswordValueError = 500"


text \<open>A handler that returns normally answers with status 200.\<close>

fun response_status :: "exn + 'a \<Rightarrow> nat" where
  "response_status (Inl e) = status_code e"
| "response_status (Inr v) = 200"

subsection \<open>External collaborators\<close>

text \<open>
  The password hasher (passlib's \<^verbatim>\<open>CryptContext\<close>) is a library; it is a parameter
  of the model, with its two operations on strings. \<^verbatim>\<open>verify\<close> answers whether
  the password matches the hash, or raises: it is called on whatever password
  a login form carries. \<^verbatim>\<open>hash\<close> is taken to return for every password it is
  given.
\<close>

record CryptContext =
  pwd_hash :: "string \<Rightarrow> string"
  pwd_verify :: "string \<Rightarrow> string \<Rightarrow> exn + bool"

text \<open>
  \<^verbatim>\<open>auth.py\<close> is not among the sources: the token lifetime and the token issuer
  that \<^verbatim>\<open>main.py\<close> imports from it are parameters. The issuer takes the claims
  (\<^verbatim>\<open>{"sub": username}\<close>) and the lifetime in minutes. The third import,
  \<^verbatim>\<open>get_current_user\<close>, appears as its result: every authenticated handler
  takes the row \<open>current_user\<close> of the caller.
\<close>

record auth_module =
  ACCESS_TOKEN_EXPIRE_MINUTES :: int
  create_access_token :: "(string \<times> string) list \<Rightarrow> int \<Rightarrow> string"

subsection \<open>The store\<close>

text \<open>
  Modelled from the spec: the identifier of a row is an integer, unique,
  assigned at creation. The model assigns one more than the largest identifier
  in the table (1 in an empty table), as the default SQLite store of
  \<^verbatim>\<open>database.py\<close> does.
\<close>

definition next_id :: "int list \<Rightarrow> int" where
  "next_id ids = foldr max ids 0 + 1"

text \<open>
  The identifiers and the paging numbers of a request are Python integers,
  without bound. The SQLite store binds an integer parameter of a query as a
  signed 64-bit value and raises \<open>OverflowError\<close> for any other. The caller's
  own identifier is read from the caller's stored row, so it has been bound
  before and is not tested again.
\<close>

definition fits_int64 :: "int \<Rightarrow> bool" where
  "fits_int64 i \<longleftrightarrow> - (2 ^ 63) \<le> i \<and> i < 2 ^ 63"

text \<open>
  \<^verbatim>\<open>.offset(skip).limit(limit).all()\<close> under SQLite: both numbers are bound to
  the query; a negative offset counts as zero, a negative limit is no limit.
\<close>

definition offset_limit :: "int \<Rightarrow> int \<Rightarrow> 'a list \<Rightarrow> exn + 'a list" where
  "offset_limit skip limit xs =
     (if \<not> fits_int64 skip \<or> \<not> fits_int64 limit then Inl OverflowError
      else let ys = drop (nat skip) xs
           in Inr (if limit < 0 then ys else take (nat limit) ys))"

text \<open>
  Modelled from the spec: the columns title, completed, email and is_admin hold
  a value in every row (the spec's data model gives them as string and boolean,
  and the response schemas declare them \<^verbatim>\<open>str\<close> and \<^verbatim>\<open>bool\<close>), so a commit that
  would store None in one of them is refused with \<open>IntegrityError\<close>. The
  description is nullable.
\<close>

fun assign_required :: "'a option field \<Rightarrow> 'a \<Rightarrow> exn + 'a" where
  "assign_required Unset old = Inr old"
| "assign_required (Assigned None) old = Inl IntegrityError"
| "assign_required (Assigned (Some v)) old = Inr v"

fun assign_nullable :: "'a option field \<Rightarrow> 'a option \<Rightarrow> 'a option" where
  "assign_nullable Unset old = old"
| "assign_nullable (Assigned v) old = v"

section \<open>The record service (\<^verbatim>\<open>crud.py\<close>)\<close>

definition get_password_hash :: "CryptContext \<Rightarrow> string \<Rightarrow> string" where
  "get_password_hash pwd_context password = pwd_hash pwd_context password"

definition verify_password :: "CryptContext \<Rightarrow> string \<Rightarrow> string \<Rightarrow> exn + bool" where
  "verify_password pwd_context plain_password hashed_password =
     pwd_verify pwd_context plain_password hashed_password"

definition crud_get_user_by_username :: "Session \<Rightarrow> string \<Rightarrow> user_row option" where
  "crud_get_user_by_username db username =
     find (\<lambda>u. u_username u = username) (users db)"

definition crud_get_user :: "Session \<Rightarrow> int \<Rightarrow> exn + user_row option" where
  "crud_get_user db user_id =
     (if \<not> fits_int64 user_id then Inl OverflowError
      else Inr (find (\<lambda>u. u_id u = user_id) (users db)))"

definition crud_get_users :: "Session \<Rightarrow> int \<Rightarrow> int \<Rightarrow> exn + user_row list" where
  "crud_get_users db skip limit = offset_limit skip limit (users db)"

text \<open>
  Modelled from the spec: the store enforces that usernames are unique, so the
  insert of a second row with a stored username is refused.
\<close>

definition crud_create_user ::
  "CryptContext \<Rightarrow> Session \<Rightarrow> UserCreate \<Rightarrow> exn + (user_row \<times> Session)" where
  "crud_create_user pwd_context db user =
     (let hashed_password = get_password_hash pwd_context (uc_password user) in
      if crud_get_user_by_username db (uc_username user) \<noteq> None then Inl IntegrityError
      else case uc_is_admin user of
        None \<Rightarrow> Inl IntegrityError
      | Some adm \<Rightarrow>
          (let db_user = \<lparr>u_id = next_id (map u_id (users db)),
                          u_username = uc_username user,
                          u_email = uc_email user,
                          u_hashed_password = hashed_password,
                          u_is_admin = adm\<rparr>
           in Inr (db_user, db\<lparr>users := users db @ [db_user]\<rparr>)))"

text \<open>
  \<^verbatim>\<open>update_user\<close>: the dumped payload holds the assigned fields only. A password
  in it is hashed first (hashing None raises), then every assigned field is
  written to the row and the row is committed.
\<close>

definition crud_update_user ::
  "CryptContext \<Rightarrow> Session \<Rightarrow> int \<Rightarrow> UserUpdate \<Rightarrow> exn + (user_row option \<times> Session)" where
  "crud_update_user pwd_context db user_id user_update =
     (case crud_get_user db user_id of
        Inl e \<Rightarrow> Inl e
      | Inr None \<Rightarrow> Inr (None, db)
      | Inr (Some db_user) \<Rightarrow>
          (case uu_password user_update of
             Assigned None \<Rightarrow> Inl TypeError
           | pw \<Rightarrow>
              (let hashed = (case pw of
                               Assigned (Some p) \<Rightarrow> get_password_hash pwd_context p
                             | _ \<Rightarrow> u_hashed_password db_user) in
               case assign_required (uu_email user_update) (u_email db_user) of
                 Inl e \<Rightarrow> Inl e
               | Inr em \<Rightarrow>
                  (case assign_required (uu_is_admin user_update) (u_is_admin db_user) of
                     Inl e \<Rightarrow> Inl e
                   | Inr adm \<Rightarrow>
                      (let db_user' = db_user\<lparr>u_email := em,
                                              u_is_admin := adm,
                                              u_hashed_password := hashed\<rparr>
                       in Inr (Some db_user',
                               db\<lparr>users := map (\<lambda>r. if u_id r = u_id db_user then db_user' else r)
                                                (users db)\<rparr>))))))"

definition crud_delete_user ::
  "Session \<Rightarrow> int \<Rightarrow> exn + (user_row option \<times> Session)" where
  "crud_delete_user db user_id =
     (case crud_get_user db user_id of
        Inl e \<Rightarrow> Inl e
      | Inr None \<Rightarrow> Inr (None, db)
      | Inr (Some db_user) \<Rightarrow>
          Inr (Some db_user,
               db\<lparr>users := filter (\<lambda>r. u_id r \<noteq> u_id db_user) (users db)\<rparr>))"

text \<open>
  Modelled from the spec: a task's completed flag defaults to false. The
  default belongs to the column declaration in \<^verbatim>\<open>models.py\<close>, which is not among
  the sources; \<^verbatim>\<open>create_task\<close> passes the dumped \<^verbatim>\<open>TaskCreate\<close> (title and
  description) and the owner, and nothing for completed.
\<close>

definition Task_completed_default :: bool where
  "Task_completed_default = False"

definition crud_create_task :: "Session \<Rightarrow> TaskCreate \<Rightarrow> int \<Rightarrow> task_row \<times> Session" where
  "crud_create_task db task user_id =
     (let db_task = \<lparr>t_id = next_id (map t_id (tasks db)),
                     t_title = tc_title task,
                     t_description = tc_description task,
                     t_completed = Task_completed_default,
                     t_owner_id = user_id\<rparr>
      in (db_task, db\<lparr>tasks := tasks db @ [db_task]\<rparr>))"

definition crud_get_tasks ::
  "Session \<Rightarrow> int \<Rightarrow> int \<Rightarrow> int \<Rightarrow> exn + task_row list" where
  "crud_get_tasks db user_id skip limit =
     offset_limit skip limit (filter (\<lambda>t. t_owner_id t = user_id) (tasks db))"

definition crud_get_task :: "Session \<Rightarrow> int \<Rightarrow> exn + task_row option" where
  "crud_get_task db task_id =
     (if \<not> fits_int64 task_id then Inl OverflowError
      else Inr (find (\<lambda>t. t_id t = task_id) (tasks db)))"

definition crud_update_task ::
  "Session \<Rightarrow> int \<Rightarrow> TaskUpdate \<Rightarrow> exn + (task_row option \<times> Session)" where
  "crud_update_task db task_id task_update =
     (if \<not> fits_int64 task_id then Inl OverflowError
      else case find (\<lambda>t. t_id t = task_id) (tasks db) of
        None \<Rightarrow> Inr (None, db)
      | Some db_task \<Rightarrow>
          (case assign_required (tu_title task_update) (t_title db_task) of
             Inl e \<Rightarrow> Inl e
           | Inr ti \<Rightarrow>
              (case assign_required (tu_completed task_update) (t_completed db_task) of
                 Inl e \<Rightarrow> Inl e
               | Inr co \<Rightarrow>
                  (let db_task' = db_task\<lparr>t_title := ti,
                                          t_description :=
                                            assign_nullable (tu_description task_update)
                                              (t_description db_task),
                                          t_completed := co\<rparr>
                   in Inr (Some db_task',
                           db\<lparr>tasks := map (\<lambda>r. if t_id r = t_id db_task then db_task' else r)
                                            (tasks db)\<rparr>)))))"

definition crud_delete_task ::
  "Session \<Rightarrow> int \<Rightarrow> exn + (task_row option \<times> Session)" where
  "crud_delete_task db task_id =
     (case crud_get_task db task_id of
        Inl e \<Rightarrow> Inl e
      | Inr None \<Rightarrow> Inr (None, db)
      | Inr (Some db_task) \<Rightarrow>
          Inr (Some db_task,
               db\<lparr>tasks := filter (\<lambda>r. t_id r \<noteq> t_id db_task) (tasks db)\<rparr>))"

section \<open>The router (\<^verbatim>\<open>main.py\<close>)\<close>

text \<open>
  A handler that commits returns its outcome and the session after it; a handler
  that raises leaves the session as it was. Handlers that only read return
  their outcome. The parameters keep the order of the source; the password
  hasher and the token module come first where a handler uses them.
\<close>

definition create_user ::
  "CryptContext \<Rightarrow> UserCreate \<Rightarrow> Session \<Rightarrow> (exn + user_row) \<times> Session" where
  "create_user pwd_context user db =
     (case crud_get_user_by_username db (uc_username user) of
        Some db_user \<Rightarrow> (Inl (HTTPException 400 ''Username already registered''), db)
      | None \<Rightarrow>
          (case crud_create_user pwd_context db user of
             Inl e \<Rightarrow> (Inl e, db)
           | Inr (db_user, db') \<Rightarrow> (Inr db_user, db')))"

definition login ::
  "CryptContext \<Rightarrow> auth_module \<Rightarrow> OAuth2PasswordRequestForm \<Rightarrow> Session
     \<Rightarrow> exn + (string \<times> string) list" where
  "login pwd_context auth form_data db =
     (case crud_get_user_by_username db (form_username form_data) of
        None \<Rightarrow> Inl (HTTPException 401 ''Incorrect username or password'')
      | Some user \<Rightarrow>
          (case verify_password pwd_context (form_password form_data)
                  (u_hashed_password user) of
             Inl e \<Rightarrow> Inl e
           | Inr False \<Rightarrow> Inl (HTTPException 401 ''Incorrect username or password'')
           | Inr True \<Rightarrow>
              (let access_token_expires = ACCESS_TOKEN_EXPIRE_MINUTES auth;
                   access_token = create_access_token auth [(''sub'', u_username user)]
                                    access_token_expires
               in Inr [(''access_token'', access_token), (''token_type'', ''bearer'')])))"

definition read_users :: "int \<Rightarrow> int \<Rightarrow> Session \<Rightarrow> user_row \<Rightarrow> exn + user_row list" where
  "read_users skip limit db current_user =
     (if \<not> u_is_admin current_user then Inl (HTTPException 403 ''Admin access required'')
      else crud_get_users db skip limit)"

definition read_user :: "int \<Rightarrow> Session \<Rightarrow> user_row \<Rightarrow> exn + user_row" where
  "read_user user_id db current_user =
     (if \<not> u_is_admin current_user \<and> u_id current_user \<noteq> user_id
      then Inl (HTTPException 403 ''Not authorized to view this user'')
      else case crud_get_user db user_id of
             Inl e \<Rightarrow> Inl e
           | Inr None \<Rightarrow> Inl (HTTPException 404 ''User not found'')
           | Inr (Some db_user) \<Rightarrow> Inr db_user)"

definition update_user ::
  "CryptContext \<Rightarrow> int \<Rightarrow> UserUpdate \<Rightarrow> Session \<Rightarrow> user_row \<Rightarrow> (exn + user_row) \<times> Session" where
  "update_user pwd_context user_id user db current_user =
     (if \<not> u_is_admin current_user \<and> u_id current_user \<noteq> user_id
      then (Inl (HTTPException 403 ''Not authorized to update this user''), db)
      else case crud_update_user pwd_context db user_id user of
             Inl e \<Rightarrow> (Inl e, db)
           | Inr (None, db') \<Rightarrow> (Inl (HTTPException 404 ''User not found''), db')
           | Inr (Some db_user, db') \<Rightarrow> (Inr db_user, db'))"

definition delete_user ::
  "int \<Rightarrow> Session \<Rightarrow> user_row \<Rightarrow> (exn + (string \<times> string) list) \<times> Session" where
  "delete_user user_id db current_user =
     (if \<not> u_is_admin current_user \<and> u_id current_user \<noteq> user_id
      then (Inl (HTTPException 403 ''Not authorized to delete this user''), db)
      else case crud_delete_user db user_id of
             Inl e \<Rightarrow> (Inl e, db)
           | Inr (None, db') \<Rightarrow> (Inl (HTTPException 404 ''User not found''), db')
           | Inr (Some db_user, db') \<Rightarrow> (Inr [(''detail'', ''User deleted'')], db'))"

definition create_task ::
  "TaskCreate \<Rightarrow> Session \<Rightarrow> user_row \<Rightarrow> (exn + task_row) \<times> Session" where
  "create_task task db current_user =
     (case crud_create_task db task (u_id current_user) of
        (db_task, db') \<Rightarrow> (Inr db_task, db'))"

definition read_tasks :: "int \<Rightarrow> int \<Rightarrow> Session \<Rightarrow> user_row \<Rightarrow> exn + task_row list" where
  "read_tasks skip limit db current_user =
     crud_get_tasks db (u_id current_user) skip limit"


text \<open>
  \<^verbatim>\<open>update_task\<close> returns what the record service returns; were that None, the
  response model would reject it.
\<close>

definition update_task ::
  "int \<Rightarrow> TaskUpdate \<Rightarrow> Session \<Rightarrow> user_row \<Rightarrow> (exn + task_row) \<times> Session" where
  "update_task task_id task db current_user =
     (case crud_get_task db task_id of
        Inl e \<Rightarrow> (Inl e, db)
      | Inr None \<Rightarrow> (Inl (HTTPException 404 ''Task not found''), db)
      | Inr (Some db_task) \<Rightarrow>
          if \<not> u_is_admin current_user \<and> t_owner_id db_task \<noteq> u_id current_user
          then (Inl (HTTPException 403 ''Not authorized to update this task''), db)
          else (case crud_update_task db task_id task of
                  Inl e \<Rightarrow> (Inl e, db)
                | Inr (None, db') \<Rightarrow> (Inl ResponseValidationError, db')
                | Inr (Some t, db') \<Rightarrow> (Inr t, db')))"

definition delete_task ::
  "int \<Rightarrow> Session \<Rightarrow> user_row \<Rightarrow> (exn + (string \<times> string) list) \<times> Session" where
  "delete_task task_id db current_user =
     (case crud_get_task db task_id of
        Inl e \<Rightarrow> (Inl e, db)
      | Inr None \<Rightarrow> (Inl (HTTPException 404 ''Task not found''), db)
      | Inr (Some db_task) \<Rightarrow>
          if \<not> u_is_admin current_user \<and> t_owner_id db_task \<noteq> u_id current_user
          then (Inl (HTTPException 403 ''Not authorized to delete this task''), db)
          else (case crud_delete_task db task_id of
                  Inl e \<Rightarrow> (Inl e, db)
                | Inr (deleted, db') \<Rightarrow> (Inr [(''detail'', ''Task deleted'')], db')))"

subsection \<open>Routes: request validation and response models\<close>

text \<open>
  The decorators of \<^verbatim>\<open>main.py\<close> put a response model after the handler: the
  client receives the dump of the returned row, not the row.
\<close>

definition POST_users ::
  "CryptContext \<Rightarrow> UserCreate \<Rightarrow> Session \<Rightarrow> (exn + json_object) \<times> Session" where
  "POST_users pwd_context user db =
     (case create_user pwd_context user db of (r, db') \<Rightarrow> (map_sum id User_dump r, db'))"

definition GET_users :: "int \<Rightarrow> int \<Rightarrow> Session \<Rightarrow> user_row \<Rightarrow> exn + json_object list" where
  "GET_users skip limit db current_user =
     map_sum id (map User_dump) (read_users skip limit db current_user)"

definition GET_users_id :: "int \<Rightarrow> Session \<Rightarrow> user_row \<Rightarrow> exn + json_object" where
  "GET_users_id user_id db current_user =
     map_sum id User_dump (read_user user_id db current_user)"

definition PUT_users_id ::
  "CryptContext \<Rightarrow> int \<Rightarrow> UserUpdate \<Rightarrow> Session \<Rightarrow> user_row
     \<Rightarrow> (exn + json_object) \<times> Session" where
  "PUT_users_id pwd_context user_id user db current_user =
     (case update_user pwd_context user_id user db current_user of
        (r, db') \<Rightarrow> (map_sum id User_dump r, db'))"

text \<open>
  The body of \<^verbatim>\<open>POST /tasks/\<close> is a JSON object, here the map from its keys to
  their values. \<^verbatim>\<open>TaskCreate\<close> declares a required string \<^verbatim>\<open>title\<close> and an
  optional string \<^verbatim>\<open>description\<close>; keys it does not declare are ignored.
\<close>

definition TaskCreate_model_validate :: "(string \<rightharpoonup> json) \<Rightarrow> exn + TaskCreate" where
  "TaskCreate_model_validate body =
     (case body ''title'' of
        Some (JStr title) \<Rightarrow>
          (case body ''description'' of
             None \<Rightarrow> Inr \<lparr>tc_title = title, tc_description = None\<rparr>
           | Some JNull \<Rightarrow> Inr \<lparr>tc_title = title, tc_description = None\<rparr>
           | Some (JStr d) \<Rightarrow> Inr \<lparr>tc_title = title, tc_description = Some d\<rparr>
           | Some _ \<Rightarrow> Inl RequestValidationError)
      | _ \<Rightarrow> Inl RequestValidationError)"

definition POST_tasks ::
  "(string \<rightharpoonup> json) \<Rightarrow> Session \<Rightarrow> user_row \<Rightarrow> (exn + json_object) \<times> Session" where
  "POST_tasks body db current_user =
     (case TaskCreate_model_validate body of
        Inl e \<Rightarrow> (Inl e, db)
      | Inr task \<Rightarrow>
          (case create_task task db current_user of
             (r, db') \<Rightarrow> (map_sum id Task_dump r, db')))"

subsection \<open>The requests a caller can make\<close>



section \<open>Example data\<close>

text \<open>
  A small store used to run the model: an administrator, a plain user who owns
  one task, a toy token issuer and a toy password hasher which, as passlib
  does, refuses to verify a password that contains a NUL byte.
\<close>

definition ex_pwd :: CryptContext where
  "ex_pwd = \<lparr>pwd_hash = (\<lambda>p. ''h:'' @ p),
             pwd_verify = (\<lambda>p h. if CHR 0x00 \<in> set p then Inl PasswordValueError
                                   else Inr (h = ''h:'' @ p))\<rparr>"

definition ex_auth :: auth_module where
  "ex_auth = \<lparr>ACCESS_TOKEN_EXPIRE_MINUTES = 30,
              create_access_token = (\<lambda>claims minutes. concat (map snd claims))\<rparr>"

definition ex_alice :: user_row where
  "ex_alice = \<lparr>u_id = 1, u_username = ''alice'', u_email = ''a@x'',
               u_hashed_password = ''h:pw'', u_is_admin = True\<rparr>"

definition ex_bob :: user_row where
  "ex_bob = \<lparr>u_id = 2, u_username = ''bob'', u_email = ''b@x'',
             u_hashed_password = ''h:pw2'', u_is_admin = False\<rparr>"

definition ex_task :: task_row where
  "ex_task = \<lparr>t_id = 1, t_title = ''T'', t_description = Some ''d'',
              t_completed = False, t_owner_id = 2\<rparr>"

definition ex_db :: Session where
  "ex_db = \<lparr>users = [ex_alice, ex_bob], tasks = [ex_task]\<rparr>"

definition ex_promote :: UserUpdate where
  "ex_promote = \<lparr>uu_email = Unset, uu_password = Unset, uu_is_admin = Assigned (Some True)\<rparr>"

definition ex_complete :: TaskUpdate where
  "ex_complete = \<lparr>tu_title = Unset, tu_description = Unset,
                  tu_completed = Assigned (Some True)\<rparr>"

definition ex_form_good :: OAuth2PasswordRequestForm where
  "ex_form_good = \<lparr>form_username = ''bob'', form_password = ''pw2''\<rparr>"

definition ex_form_wrong :: OAuth2PasswordRequestForm where
  "ex_form_wrong = \<lparr>form_username = ''bob'', form_password = ''guess''\<rparr>"

definition ex_form_unknown :: OAuth2PasswordRequestForm where
  "ex_form_unknown = \<lparr>form_username = ''mallory'', form_password = ''pw2''\<rparr>"

definition ex_form_nul :: OAuth2PasswordRequestForm where
  "ex_form_nul = \<lparr>form_username = ''bob'', form_password = [CHR ''p'', CHR 0x00]\<rparr>"

definition ex_form_nul_unknown :: OAuth2PasswordRequestForm where
  "ex_form_nul_unknown =
     \<lparr>form_username = ''mallory'', form_password = [CHR ''p'', CHR 0x00]\<rparr>"

definition ex_null_title :: TaskUpdate where
  "ex_null_title = \<lparr>tu_title = Assigned None, tu_description = Unset,
                    tu_completed = Unset\<rparr>"

definition ex_null_completed :: TaskUpdate where
  "ex_null_completed = \<lparr>tu_title = Unset, tu_description = Unset,
                        tu_completed = Assigned None\<rparr>"

definition ex_carol :: UserCreate where
  "ex_carol = \<lparr>uc_username = ''carol'', uc_email = ''c@x'', uc_password = ''pw3'',
               uc_is_admin = Some False\<rparr>"

definition ex_carol_again :: UserCreate where
  "ex_carol_again = \<lparr>uc_username = ''carol'', uc_email = ''dup@x'', uc_password = ''pw4'',
                     uc_is_admin = Some True\<rparr>"

definition ex_body :: "string \<rightharpoonup> json" where
  "ex_body = [''title'' \<mapsto> JStr ''x'', ''completed'' \<mapsto> JBool True]"

definition ex_task2 :: task_row where
  "ex_task2 = \<lparr>t_id = 2, t_title = ''A'', t_description = None,
               t_completed = True, t_owner_id = 1\<rparr>"

definition ex_db2 :: Session where
  "ex_db2 = \<lparr>users = [ex_alice, ex_bob], tasks = [ex_task, ex_task2]\<rparr>"

section \<open>What a user representation may hold\<close>

text \<open>
  A response object is a user representation in the sense of the spec when its
  keys are exactly id, username, email and is_admin, and it has no key for the
  password or its hash.
\<close>

definition User_fields :: "string list" where
  "User_fields = [''id'', ''username'', ''email'', ''is_admin'']"

definition User_only :: "json_object \<Rightarrow> bool" where
  "User_only obj \<longleftrightarrow>
     keys obj = User_fields \<and> ''hashed_password'' \<notin> set (keys obj) \<and>
     ''password'' \<notin> set (keys obj)"

lemmas ex_defs = ex_pwd_def ex_auth_def ex_alice_def ex_bob_def ex_task_def ex_db_def
  ex_promote_def ex_complete_def ex_form_good_def ex_form_wrong_def ex_form_unknown_def
  ex_carol_def ex_carol_again_def ex_body_def ex_task2_def ex_db2_def
  ex_form_nul_def ex_form_nul_unknown_def ex_null_title_def ex_null_completed_def

section \<open>Helper lemmas\<close>


lemma assign_required_error:
  "assign_required f old = Inl e \<Longrightarrow> e = IntegrityError \<and> f = Assigned None"
  by (cases "(f, old)" rule: assign_required.cases) auto

lemma find_Some_holds: "find P xs = Some x \<Longrightarrow> P x \<and> x \<in> set xs"
  by (induction xs) (auto split: if_splits)





lemma find_key_absent: "k \<notin> f ` set xs \<Longrightarrow> find (\<lambda>r. f r = k) xs = None"
  by (induction xs) auto



lemma find_distinct_key:
  "distinct (map f xs) \<Longrightarrow> x \<in> set xs \<Longrightarrow> find (\<lambda>r. f r = f x) xs = Some x"
  by (induction xs) (auto simp: image_iff)

lemma foldr_max_upper: "\<forall>x\<in>set ids. x \<le> foldr max ids (0::int)"
  by (induction ids) (auto simp: le_max_iff_disj)

lemma next_id_fresh: "next_id ids \<notin> set ids"
  using foldr_max_upper [of ids] unfolding next_id_def by force

lemma set_offset_limit:
  assumes "offset_limit skip limit xs = Inr ys"
  shows "set ys \<subseteq> set xs"
proof -
  have "set (take n (drop m xs)) \<subseteq> set xs" for n m
    using set_take_subset [of n "drop m xs"] set_drop_subset [of m xs] by blast
  then show ?thesis
    using assms set_drop_subset [of "nat skip" xs]
    by (auto simp: offset_limit_def Let_def split: if_splits)
qed

lemma offset_limit_returns:
  "fits_int64 skip \<Longrightarrow> fits_int64 limit \<Longrightarrow> \<exists>ys. offset_limit skip limit xs = Inr ys"
  by (simp add: offset_limit_def Let_def)


lemma User_only_dump: "User_only (User_dump u)"
  by (simp add: User_only_def keys_def User_dump_def User_fields_def)


lemma crud_get_task_Some:
  assumes "crud_get_task db task_id = Inr (Some t)"
  shows "t_id t = task_id \<and> t \<in> set (tasks db) \<and> fits_int64 task_id \<and>
         find (\<lambda>r. t_id r = task_id) (tasks db) = Some t"
proof -
  from assms have f: "fits_int64 task_id"
    and g: "find (\<lambda>r. t_id r = task_id) (tasks db) = Some t"
    by (auto simp: crud_get_task_def split: if_splits)
  from find_Some_holds [OF g] f g show ?thesis by simp
qed

lemma crud_get_tasks_owned:
  assumes "crud_get_tasks db user_id skip limit = Inr ts" and "t \<in> set ts"
  shows "t_owner_id t = user_id \<and> t \<in> set (tasks db)"
proof -
  from assms(1) have "set ts \<subseteq> set (filter (\<lambda>t. t_owner_id t = user_id) (tasks db))"
    unfolding crud_get_tasks_def by (rule set_offset_limit)
  with assms(2) have "t \<in> set (filter (\<lambda>t. t_owner_id t = user_id) (tasks db))"
    by (rule subsetD [rotated])
  then show ?thesis by simp
qed

subsection \<open>What an update of a task does\<close>




subsection \<open>Task identifiers stay unique\<close>

lemma map_key_replace:
  "f row = k \<Longrightarrow> map (f \<circ> (\<lambda>r. if f r = k then row else r)) xs = map f xs"
  by (induction xs) auto

lemma task_ids_stay_distinct:
  assumes "distinct (map t_id (tasks db))"
  shows "distinct (map t_id (tasks (snd (crud_create_task db task user_id))))"
    and "crud_update_task db task_id p = Inr (r, db') \<Longrightarrow> distinct (map t_id (tasks db'))"
    and "crud_delete_task db task_id = Inr (r, db') \<Longrightarrow> distinct (map t_id (tasks db'))"
proof -
  show "distinct (map t_id (tasks (snd (crud_create_task db task user_id))))"
    using assms next_id_fresh [of "map t_id (tasks db)"]
    by (simp add: crud_create_task_def Let_def)
  show "distinct (map t_id (tasks db'))" if d: "crud_delete_task db task_id = Inr (r, db')"
    using assms d
    by (auto simp: crud_delete_task_def crud_get_task_def distinct_map_filter
             split: option.splits if_splits)
  show "distinct (map t_id (tasks db'))" if u: "crud_update_task db task_id p = Inr (r, db')"
  proof (cases "find (\<lambda>t. t_id t = task_id) (tasks db)")
    case None
    with u assms show ?thesis by (simp add: crud_update_task_def split: if_splits)
  next
    case (Some t)
    from u Some obtain row where
      db': "db' = db\<lparr>tasks := map (\<lambda>r. if t_id r = t_id t then row else r) (tasks db)\<rparr>"
      and row: "t_id row = t_id t"
      by (auto simp: crud_update_task_def Let_def split: sum.splits if_splits)
    from row db' assms show ?thesis
      by (simp add: map_key_replace)
  qed
qed

subsection \<open>Rows of other users survive a request\<close>








section \<open>Order of the not-found and forbidden checks\<close>

text \<open>
  Claim C1 says that \<^verbatim>\<open>PUT /tasks/{id}\<close> and \<^verbatim>\<open>DELETE /tasks/{id}\<close> answer
  404 for every task id that is not stored. The id of the path is an unbounded
  integer, and the lookup binds it to a query of the store: an id that is not
  stored and does not fit 64 bits is answered with a server error, status 500,
  not 404.
\<close>

theorem task_id_out_of_range_counterexample:
  "9223372036854775808 \<notin> t_id ` set (tasks ex_db) \<and>
   response_status (fst (update_task 9223372036854775808 ex_complete ex_db ex_alice)) = 500 \<and>
   response_status (fst (delete_task 9223372036854775808 ex_db ex_alice)) = 500"
  by (simp add: ex_defs update_task_def delete_task_def crud_get_task_def fits_int64_def)

text \<open>
  Claim C1, amended. \<^verbatim>\<open>PUT /users/{id}\<close> and \<^verbatim>\<open>DELETE /users/{id}\<close> test the
  predicate "caller is admin or caller's id is the id" before they call the
  record service: for every id, stored or not, and every caller for whom the
  predicate fails, the answer is 403 and the store is untouched, whatever the
  payload. \<^verbatim>\<open>PUT /tasks/{id}\<close> and \<^verbatim>\<open>DELETE /tasks/{id}\<close> look the task up first:
  for every id that is not stored and fits the store's signed 64-bit integers
  the answer is 404 for every caller and the store is untouched, and for no id
  that is not stored is the answer 403.
\<close>

theorem user_forbidden_before_not_found_task_not_found_first:
  "(\<not> u_is_admin c \<and> u_id c \<noteq> user_id \<longrightarrow>
      update_user pwd user_id upd db c
        = (Inl (HTTPException 403 ''Not authorized to update this user''), db) \<and>
      delete_user user_id db c
        = (Inl (HTTPException 403 ''Not authorized to delete this user''), db)) \<and>
   (task_id \<notin> t_id ` set (tasks db) \<and> fits_int64 task_id \<longrightarrow>
      update_task task_id tupd db c' = (Inl (HTTPException 404 ''Task not found''), db) \<and>
      delete_task task_id db c' = (Inl (HTTPException 404 ''Task not found''), db)) \<and>
   (task_id \<notin> t_id ` set (tasks db) \<longrightarrow>
      response_status (fst (update_task task_id tupd db c')) \<noteq> 403 \<and>
      response_status (fst (delete_task task_id db c')) \<noteq> 403)"
proof (intro conjI impI)
  assume "\<not> u_is_admin c \<and> u_id c \<noteq> user_id"
  then show "update_user pwd user_id upd db c
        = (Inl (HTTPException 403 ''Not authorized to update this user''), db)"
    and "delete_user user_id db c
        = (Inl (HTTPException 403 ''Not authorized to delete this user''), db)"
    by (simp_all add: update_user_def delete_user_def)
next
  assume "task_id \<notin> t_id ` set (tasks db) \<and> fits_int64 task_id"
  then have "crud_get_task db task_id = Inr None"
    by (simp add: crud_get_task_def find_key_absent)
  then show "update_task task_id tupd db c' = (Inl (HTTPException 404 ''Task not found''), db)"
    and "delete_task task_id db c' = (Inl (HTTPException 404 ''Task not found''), db)"
    by (simp_all add: update_task_def delete_task_def)
next
  assume "task_id \<notin> t_id ` set (tasks db)"
  then have "crud_get_task db task_id = Inr None \<or> crud_get_task db task_id = Inl OverflowError"
    by (simp add: crud_get_task_def find_key_absent)
  then show "response_status (fst (update_task task_id tupd db c')) \<noteq> 403"
    and "response_status (fst (delete_task task_id db c')) \<noteq> 403"
    by (auto simp: update_task_def delete_task_def)
qed

theorem user_forbidden_before_not_found_task_not_found_first_witness:
  "\<not> u_is_admin ex_bob \<and> u_id ex_bob \<noteq> 999 \<and>
   update_user ex_pwd 999 ex_promote ex_db ex_bob
     = (Inl (HTTPException 403 ''Not authorized to update this user''), ex_db) \<and>
   delete_user 999 ex_db ex_bob
     = (Inl (HTTPException 403 ''Not authorized to delete this user''), ex_db) \<and>
   999 \<notin> t_id ` set (tasks ex_db) \<and> fits_int64 999 \<and>
   update_task 999 ex_complete ex_db ex_alice
     = (Inl (HTTPException 404 ''Task not found''), ex_db) \<and>
   delete_task 999 ex_db ex_alice = (Inl (HTTPException 404 ''Task not found''), ex_db) \<and>
   response_status (fst (update_task 999 ex_complete ex_db ex_alice)) \<noteq> 403"
proof -
  have pre: "\<not> u_is_admin ex_bob \<and> u_id ex_bob \<noteq> 999"
    by (simp add: ex_defs)
  have pre2: "999 \<notin> t_id ` set (tasks ex_db) \<and> fits_int64 999"
    by (simp add: ex_defs fits_int64_def)
  from user_forbidden_before_not_found_task_not_found_first
         [of ex_bob 999 ex_pwd ex_promote ex_db 999 ex_complete ex_alice] pre pre2
  show ?thesis by simp
qed

section \<open>The administrator and another user's task\<close>




section \<open>Who can set the administrator flag\<close>




section \<open>Partial update of a task\<close>




section \<open>A created task is not completed\<close>

text \<open>
  Claim C5. The task that \<^verbatim>\<open>create_task\<close> returns has completed = false, for
  every title, description and owner. For every body sent to \<^verbatim>\<open>POST /tasks/\<close> the
  request is either rejected by validation or answered with the dump of the
  created task, whose completed field is false: a completed key in the body is
  not a field of \<^verbatim>\<open>TaskCreate\<close> and never reaches the row.
\<close>

theorem created_task_not_completed:
  "t_completed (fst (crud_create_task db task user_id)) = False \<and>
   (fst (POST_tasks body db c) = Inl RequestValidationError \<or>
    (\<exists>task' obj. TaskCreate_model_validate body = Inr task' \<and>
        fst (POST_tasks body db c) = Inr obj \<and>
        obj = Task_dump (fst (crud_create_task db task' (u_id c))) \<and>
        map_of obj ''completed'' = Some (JBool False)))"
proof -
  have a: "t_completed (fst (crud_create_task db task user_id)) = False" for task user_id
    by (simp add: crud_create_task_def Task_completed_default_def Let_def)
  have v: "TaskCreate_model_validate body = Inl RequestValidationError \<or>
           (\<exists>task'. TaskCreate_model_validate body = Inr task')"
    by (auto simp: TaskCreate_model_validate_def split: option.splits json.splits)
  have b: "fst (POST_tasks body db c) = Inl RequestValidationError \<or>
    (\<exists>task' obj. TaskCreate_model_validate body = Inr task' \<and>
        fst (POST_tasks body db c) = Inr obj \<and>
        obj = Task_dump (fst (crud_create_task db task' (u_id c))) \<and>
        map_of obj ''completed'' = Some (JBool False))"
  proof (cases "TaskCreate_model_validate body")
    case (Inl e)
    with v show ?thesis by (simp add: POST_tasks_def)
  next
    case (Inr task')
    have "map_of (Task_dump (fst (crud_create_task db task' (u_id c)))) ''completed''
            = Some (JBool False)"
      using a [of task' "u_id c"] by (simp add: Task_dump_def)
    with Inr show ?thesis
      by (simp add: POST_tasks_def create_task_def split: prod.splits)
  qed
  from a b show ?thesis by simp
qed

theorem created_task_not_completed_witness:
  "ex_body ''completed'' = Some (JBool True) \<and>
   fst (POST_tasks ex_body ex_db ex_bob)
     = Inr [(''id'', JInt 2), (''title'', JStr ''x''), (''description'', JNull),
            (''completed'', JBool False)]"
  using created_task_not_completed
          [of ex_db "\<lparr>tc_title = ''x'', tc_description = None\<rparr>" 2 ex_body ex_bob]
  by (simp add: ex_defs POST_tasks_def TaskCreate_model_validate_def create_task_def
        crud_create_task_def Task_dump_def Task_completed_default_def next_id_def Let_def)

section \<open>Registering a username twice\<close>



section \<open>User representations\<close>

text \<open>
  Claim C8. Every user representation that \<^verbatim>\<open>POST /users/\<close>, \<^verbatim>\<open>GET /users/\<close>,
  \<^verbatim>\<open>GET /users/{id}\<close> and \<^verbatim>\<open>PUT /users/{id}\<close> return has exactly the keys id,
  username, email and is_admin, and no key for the password or its hash.
\<close>

theorem user_responses_hide_password:
  "(\<forall>obj db'. POST_users pwd user db = (Inr obj, db') \<longrightarrow> User_only obj) \<and>
   (\<forall>objs. GET_users skip limit db c = Inr objs \<longrightarrow> (\<forall>obj\<in>set objs. User_only obj)) \<and>
   (\<forall>obj. GET_users_id user_id db c = Inr obj \<longrightarrow> User_only obj) \<and>
   (\<forall>obj db'. PUT_users_id pwd user_id upd db c = (Inr obj, db') \<longrightarrow> User_only obj)"
proof -
  have 1: "\<forall>obj db'. POST_users pwd user db = (Inr obj, db') \<longrightarrow> User_only obj"
    by (cases "fst (create_user pwd user db)")
       (auto simp: POST_users_def User_only_dump split: prod.splits)
  have 2: "\<forall>objs. GET_users skip limit db c = Inr objs \<longrightarrow> (\<forall>obj\<in>set objs. User_only obj)"
    by (cases "read_users skip limit db c") (auto simp: GET_users_def User_only_dump)
  have 3: "\<forall>obj. GET_users_id user_id db c = Inr obj \<longrightarrow> User_only obj"
    by (cases "read_user user_id db c") (auto simp: GET_users_id_def User_only_dump)
  have 4: "\<forall>obj db'. PUT_users_id pwd user_id upd db c = (Inr obj, db') \<longrightarrow> User_only obj"
    by (cases "fst (update_user pwd user_id upd db c)")
       (auto simp: PUT_users_id_def User_only_dump split: prod.splits)
  from 1 2 3 4 show ?thesis by (intro conjI)
qed

theorem user_responses_hide_password_witness:
  "fst (POST_users ex_pwd ex_carol ex_db)
     = Inr [(''id'', JInt 3), (''username'', JStr ''carol''), (''email'', JStr ''c@x''),
            (''is_admin'', JBool False)] \<and>
   GET_users 0 100 ex_db ex_alice
     = Inr [ [(''id'', JInt 1), (''username'', JStr ''alice''), (''email'', JStr ''a@x''),
             (''is_admin'', JBool True)],
            [(''id'', JInt 2), (''username'', JStr ''bob''), (''email'', JStr ''b@x''),
             (''is_admin'', JBool False)]] \<and>
   GET_users_id 2 ex_db ex_alice
     = Inr [(''id'', JInt 2), (''username'', JStr ''bob''), (''email'', JStr ''b@x''),
            (''is_admin'', JBool False)] \<and>
   fst (PUT_users_id ex_pwd 2 ex_promote ex_db ex_alice)
     = Inr [(''id'', JInt 2), (''username'', JStr ''bob''), (''email'', JStr ''b@x''),
            (''is_admin'', JBool True)] \<and>
   User_only [(''id'', JInt 3), (''username'', JStr ''carol''), (''email'', JStr ''c@x''),
         (''is_admin'', JBool False)] \<and>
   User_only [(''id'', JInt 1), (''username'', JStr ''alice''), (''email'', JStr ''a@x''),
         (''is_admin'', JBool True)] \<and>
   User_only [(''id'', JInt 2), (''username'', JStr ''bob''), (''email'', JStr ''b@x''),
         (''is_admin'', JBool False)] \<and>
   User_only [(''id'', JInt 2), (''username'', JStr ''bob''), (''email'', JStr ''b@x''),
         (''is_admin'', JBool True)]"
proof -
  have p: "POST_users ex_pwd ex_carol ex_db
     = (Inr [(''id'', JInt 3), (''username'', JStr ''carol''), (''email'', JStr ''c@x''),
            (''is_admin'', JBool False)], snd (POST_users ex_pwd ex_carol ex_db))"
    by (simp add: ex_defs POST_users_def create_user_def crud_create_user_def
          crud_get_user_by_username_def get_password_hash_def next_id_def User_dump_def Let_def)
  have g: "GET_users 0 100 ex_db ex_alice
     = Inr [ [(''id'', JInt 1), (''username'', JStr ''alice''), (''email'', JStr ''a@x''),
             (''is_admin'', JBool True)],
            [(''id'', JInt 2), (''username'', JStr ''bob''), (''email'', JStr ''b@x''),
             (''is_admin'', JBool False)]]"
    by (simp add: ex_defs GET_users_def read_users_def crud_get_users_def offset_limit_def
          fits_int64_def User_dump_def Let_def)
  have r: "GET_users_id 2 ex_db ex_alice
     = Inr [(''id'', JInt 2), (''username'', JStr ''bob''), (''email'', JStr ''b@x''),
            (''is_admin'', JBool False)]"
    by (simp add: ex_defs GET_users_id_def read_user_def crud_get_user_def fits_int64_def
          User_dump_def)
  have u: "PUT_users_id ex_pwd 2 ex_promote ex_db ex_alice
     = (Inr [(''id'', JInt 2), (''username'', JStr ''bob''), (''email'', JStr ''b@x''),
            (''is_admin'', JBool True)], snd (PUT_users_id ex_pwd 2 ex_promote ex_db ex_alice))"
    by (simp add: ex_defs PUT_users_id_def update_user_def crud_update_user_def
          crud_get_user_def fits_int64_def User_dump_def Let_def)
  note t = user_responses_hide_password [of ex_pwd ex_carol ex_db 0 100 ex_alice 2 ex_promote]
  note k1 = t [THEN conjunct1, rule_format, OF p]
  note k2 = t [THEN conjunct2, THEN conjunct1, rule_format, OF g,
      of "[(''id'', JInt 1), (''username'', JStr ''alice''), (''email'', JStr ''a@x''),
           (''is_admin'', JBool True)]"]
  note k3 = t [THEN conjunct2, THEN conjunct2, THEN conjunct1, rule_format, OF r]
  note k4 = t [THEN conjunct2, THEN conjunct2, THEN conjunct2, rule_format, OF u]
  have k2': "User_only [(''id'', JInt 1), (''username'', JStr ''alice''),
      (''email'', JStr ''a@x''), (''is_admin'', JBool True)]"
    by (rule k2) simp
  have f: "fst (POST_users ex_pwd ex_carol ex_db)
     = Inr [(''id'', JInt 3), (''username'', JStr ''carol''), (''email'', JStr ''c@x''),
            (''is_admin'', JBool False)]"
    by (subst p) simp
  have f2: "fst (PUT_users_id ex_pwd 2 ex_promote ex_db ex_alice)
     = Inr [(''id'', JInt 2), (''username'', JStr ''bob''), (''email'', JStr ''b@x''),
            (''is_admin'', JBool True)]"
    by (subst u) simp
  from f g r f2 k1 k2' k3 k4 show ?thesis by (intro conjI)
qed

section \<open>Login\<close>

text \<open>
  What \<^verbatim>\<open>POST /login\<close> answers, case by case: a token when the username is
  stored and the hasher verifies the password; 401 when the username is not
  stored, and when the hasher answers that the password does not match; and
  whatever the hasher raises when it raises, the handler catching nothing.
\<close>

lemma login_outcomes:
  "(crud_get_user_by_username db (form_username f) = Some user \<and>
    verify_password pwd (form_password f) (u_hashed_password user) = Inr True \<longrightarrow>
      login pwd auth f db =
        Inr [(''access_token'',
              create_access_token auth [(''sub'', u_username user)]
                (ACCESS_TOKEN_EXPIRE_MINUTES auth)),
             (''token_type'', ''bearer'')] \<and>
      response_status (login pwd auth f db) = 200) \<and>
   (crud_get_user_by_username db (form_username f) = None \<longrightarrow>
      login pwd auth f db = Inl (HTTPException 401 ''Incorrect username or password'')) \<and>
   (crud_get_user_by_username db (form_username f) = Some user \<and>
    verify_password pwd (form_password f) (u_hashed_password user) = Inr False \<longrightarrow>
      login pwd auth f db = Inl (HTTPException 401 ''Incorrect username or password'')) \<and>
   (crud_get_user_by_username db (form_username f) = Some user \<and>
    verify_password pwd (form_password f) (u_hashed_password user) = Inl e \<longrightarrow>
      login pwd auth f db = Inl e)"
  by (simp add: login_def Let_def)

lemma login_of_stored_user:
  "crud_get_user_by_username ex_db ''bob'' = Some ex_bob"
  by (simp add: ex_defs crud_get_user_by_username_def)

lemma login_good_password:
  "login ex_pwd ex_auth ex_form_good ex_db
     = Inr [(''access_token'', ''bob''), (''token_type'', ''bearer'')]"
  by (simp add: ex_defs login_def crud_get_user_by_username_def verify_password_def Let_def)

lemma login_wrong_password:
  "login ex_pwd ex_auth ex_form_wrong ex_db
     = Inl (HTTPException 401 ''Incorrect username or password'')"
  by (simp add: ex_defs login_def crud_get_user_by_username_def verify_password_def Let_def)

text \<open>
  Claim C7: \<^verbatim>\<open>POST /login\<close> answers 200 with a token for a stored username and a
  password that verifies, and 401 for every request whose username is not
  stored or whose password does not verify. The code departs from this where
  the hasher raises instead of answering: for the stored user bob and a
  password with a NUL byte, which passlib refuses, the handler answers with a
  server error, status 500, not 401.
\<close>

theorem login_nul_password_server_error:
  "crud_get_user_by_username ex_db (form_username ex_form_nul) = Some ex_bob \<and>
   verify_password ex_pwd (form_password ex_form_nul) (u_hashed_password ex_bob)
     = Inl PasswordValueError \<and>
   login ex_pwd ex_auth ex_form_nul ex_db = Inl PasswordValueError \<and>
   response_status (login ex_pwd ex_auth ex_form_nul ex_db) = 500"
  by (simp add: ex_defs login_def crud_get_user_by_username_def verify_password_def)

text \<open>
  Claim C10: the two causes of a failed login cannot be told apart from the
  response. The code departs from this on the same input: with one and the
  same NUL-byte password, the request for the username that is not stored is
  answered 401 (the hasher is never called), and the request for the stored
  username is answered 500. The two responses differ, so they tell whether the
  account exists.
\<close>

theorem login_nul_password_reveals_account:
  "form_password ex_form_nul = form_password ex_form_nul_unknown \<and>
   crud_get_user_by_username ex_db (form_username ex_form_nul_unknown) = None \<and>
   login ex_pwd ex_auth ex_form_nul_unknown ex_db
     = Inl (HTTPException 401 ''Incorrect username or password'') \<and>
   crud_get_user_by_username ex_db (form_username ex_form_nul) = Some ex_bob \<and>
   response_status (login ex_pwd ex_auth ex_form_nul ex_db) = 500 \<and>
   login ex_pwd ex_auth ex_form_nul ex_db \<noteq> login ex_pwd ex_auth ex_form_nul_unknown ex_db"
  by (simp add: ex_defs login_def crud_get_user_by_username_def verify_password_def)

text \<open>
  Where the hasher answers, the two failures are the same response.
\<close>

lemma login_failures_same_when_verifier_answers:
  assumes "crud_get_user_by_username db1 (form_username f1) = None"
    and "crud_get_user_by_username db2 (form_username f2) = Some user"
    and "verify_password pwd (form_password f2) (u_hashed_password user) = Inr False"
  shows "login pwd auth f1 db1 = login pwd auth f2 db2"
  using assms by (simp add: login_def)

section \<open>Listing tasks and looking one up\<close>

text \<open>
  Claim C9. Every task in a list that \<^verbatim>\<open>GET /tasks/\<close> returns is a stored task
  whose owner is the caller, and a list is returned whenever the paging
  numbers fit the store's 64-bit integers. The record service's \<^verbatim>\<open>get_task\<close>
  takes no caller: it returns a stored task with the identifier asked for,
  whoever owns it, and for every stored task (identifiers being unique and
  within the store's integers) it returns that task.
\<close>

theorem list_owner_scoped_lookup_owner_agnostic:
  "(\<forall>ts. read_tasks skip limit db c = Inr ts \<longrightarrow>
         (\<forall>t\<in>set ts. t_owner_id t = u_id c \<and> t \<in> set (tasks db))) \<and>
   (fits_int64 skip \<and> fits_int64 limit \<longrightarrow> (\<exists>ts. read_tasks skip limit db c = Inr ts)) \<and>
   (t \<in> set (tasks db) \<and> distinct (map t_id (tasks db)) \<and> fits_int64 (t_id t) \<longrightarrow>
      crud_get_task db (t_id t) = Inr (Some t)) \<and>
   (\<forall>t'. crud_get_task db task_id = Inr (Some t') \<longrightarrow>
         t_id t' = task_id \<and> t' \<in> set (tasks db))"
proof (intro conjI)
  show "\<forall>ts. read_tasks skip limit db c = Inr ts \<longrightarrow>
         (\<forall>t\<in>set ts. t_owner_id t = u_id c \<and> t \<in> set (tasks db))"
    unfolding read_tasks_def using crud_get_tasks_owned by blast
  show "fits_int64 skip \<and> fits_int64 limit \<longrightarrow> (\<exists>ts. read_tasks skip limit db c = Inr ts)"
    unfolding read_tasks_def crud_get_tasks_def using offset_limit_returns by blast
  show "t \<in> set (tasks db) \<and> distinct (map t_id (tasks db)) \<and> fits_int64 (t_id t) \<longrightarrow>
      crud_get_task db (t_id t) = Inr (Some t)"
    using find_distinct_key [of t_id "tasks db" t] by (simp add: crud_get_task_def)
  show "\<forall>t'. crud_get_task db task_id = Inr (Some t') \<longrightarrow>
         t_id t' = task_id \<and> t' \<in> set (tasks db)"
    using crud_get_task_Some by blast
qed

theorem list_owner_scoped_lookup_owner_agnostic_witness:
  "fits_int64 0 \<and> fits_int64 100 \<and>
   read_tasks 0 100 ex_db2 ex_bob = Inr [ex_task] \<and> t_owner_id ex_task = u_id ex_bob \<and>
   ex_task2 \<in> set (tasks ex_db2) \<and> distinct (map t_id (tasks ex_db2)) \<and>
   fits_int64 (t_id ex_task2) \<and> t_owner_id ex_task2 \<noteq> u_id ex_bob \<and>
   crud_get_task ex_db2 (t_id ex_task2) = Inr (Some ex_task2)"
proof -
  have p: "fits_int64 0" "fits_int64 100"
    by (simp_all add: fits_int64_def)
  have r: "read_tasks 0 100 ex_db2 ex_bob = Inr [ex_task]"
    by (simp add: ex_defs read_tasks_def crud_get_tasks_def offset_limit_def fits_int64_def
          Let_def)
  have m: "ex_task2 \<in> set (tasks ex_db2)"
    by (simp add: ex_db2_def)
  have d: "distinct (map t_id (tasks ex_db2))"
    by (simp add: ex_defs)
  have i: "fits_int64 (t_id ex_task2)"
    by (simp add: ex_defs fits_int64_def)
  have o: "t_owner_id ex_task2 \<noteq> u_id ex_bob"
    by (simp add: ex_defs)
  note t = list_owner_scoped_lookup_owner_agnostic [of 0 100 ex_db2 ex_bob ex_task2 2]
  from t [THEN conjunct1, rule_format, OF r, of ex_task]
  have 1: "t_owner_id ex_task = u_id ex_bob"
    by simp
  note 2 = t [THEN conjunct2, THEN conjunct2, THEN conjunct1, THEN mp, OF conjI, OF m conjI,
              OF d i]
  from p r 1 m d i o 2 show ?thesis by (intro conjI)
qed

end
